theory Spec2Isabelle
  imports Complex_Main
begin

section \<open>Values of the notebook: Python errors and numpy arrays\<close>

text \<open>
  The notebook \<^verbatim>\<open>inspect_const_weights\<close> computes with numpy arrays of at most two
  dimensions. Numbers are modelled as mathematical reals: the theory describes the
  arithmetic the notebook performs, not the rounding of its 32-bit floats.

  A value is a numpy scalar (\<open>Scalar\<close>: what numpy hands back for a result without
  dimensions, such as the inner product of two vectors), a one-dimensional array
  (\<open>Arr1\<close>) or a two-dimensional array given by its list of rows (\<open>Arr2\<close>, at least one
  row, all rows of one length). Array objects of zero or of more than two dimensions are
  not modelled. The weights Keras returns have the shapes \<open>(1,2)\<close>, \<open>(2,)\<close>, \<open>(2,1)\<close>
  and \<open>(1,)\<close>.
\<close>

datatype error = AssertionError | IndexError | ValueError | TypeError | AttributeError

datatype ndarray = Scalar real | Arr1 "real list" | Arr2 "real list list"

definition and_then :: "error + 'a \<Rightarrow> ('a \<Rightarrow> error + 'b) \<Rightarrow> error + 'b" where
  "and_then m f = (case m of Inl e \<Rightarrow> Inl e | Inr v \<Rightarrow> f v)"

fun collect :: "(error + 'a) list \<Rightarrow> error + 'a list" where
  "collect [] = Inr []"
| "collect (r # rs) = and_then r (\<lambda>v. and_then (collect rs) (\<lambda>vs. Inr (v # vs)))"


subsection \<open>\<^verbatim>\<open>a.dot(x)\<close> for a Python float \<open>x\<close>: every entry is multiplied by \<open>x\<close>\<close>

text \<open>A numpy scalar has no method \<open>dot\<close> (an AttributeError).\<close>

fun dot_scalar :: "ndarray \<Rightarrow> real \<Rightarrow> error + ndarray" where
  "dot_scalar (Scalar a) x = Inl AttributeError"
| "dot_scalar (Arr1 xs) x = Inr (Arr1 (map (\<lambda>a. a * x) xs))"
| "dot_scalar (Arr2 A) x = Inr (Arr2 (map (map (\<lambda>a. a * x)) A))"

subsection \<open>\<^verbatim>\<open>a + b\<close>: numpy broadcasting\<close>

text \<open>
  Shapes are aligned from the right; two extents are compatible when they are equal or one
  of them is 1, and the operands \<^verbatim>\<open>could not be broadcast together\<close> (a ValueError)
  otherwise.
\<close>

definition add_vec :: "real list \<Rightarrow> real list \<Rightarrow> error + real list" where
  "add_vec xs ys =
     (if length xs = length ys then Inr (map2 (+) xs ys)
      else if length xs = 1 then Inr (map (\<lambda>y. hd xs + y) ys)
      else if length ys = 1 then Inr (map (\<lambda>x. x + hd ys) xs)
      else Inl ValueError)"

definition add_mat :: "real list list \<Rightarrow> real list list \<Rightarrow> error + real list list" where
  "add_mat A B =
     (if length A = length B then collect (map2 add_vec A B)
      else if length A = 1 then collect (map (add_vec (hd A)) B)
      else if length B = 1 then collect (map (\<lambda>r. add_vec r (hd B)) A)
      else Inl ValueError)"

fun np_add :: "ndarray \<Rightarrow> ndarray \<Rightarrow> error + ndarray" where
  "np_add (Scalar a) (Scalar b) = Inr (Scalar (a + b))"
| "np_add (Scalar a) (Arr1 ys) = Inr (Arr1 (map (\<lambda>y. a + y) ys))"
| "np_add (Scalar a) (Arr2 B) = Inr (Arr2 (map (map (\<lambda>y. a + y)) B))"
| "np_add (Arr1 xs) (Scalar b) = Inr (Arr1 (map (\<lambda>x. x + b) xs))"
| "np_add (Arr1 xs) (Arr1 ys) = and_then (add_vec xs ys) (\<lambda>zs. Inr (Arr1 zs))"
| "np_add (Arr1 xs) (Arr2 B) = and_then (add_mat [xs] B) (\<lambda>C. Inr (Arr2 C))"
| "np_add (Arr2 A) (Scalar b) = Inr (Arr2 (map (map (\<lambda>x. x + b)) A))"
| "np_add (Arr2 A) (Arr1 ys) = and_then (add_mat A [ys]) (\<lambda>C. Inr (Arr2 C))"
| "np_add (Arr2 A) (Arr2 B) = and_then (add_mat A B) (\<lambda>C. Inr (Arr2 C))"

subsection \<open>\<^verbatim>\<open>a.dot(b)\<close> for arrays\<close>

text \<open>
  Inner product of two vectors (a numpy scalar), matrix-vector, vector-matrix and
  matrix-matrix product; the contracted extents must agree, else the shapes are
  \<^verbatim>\<open>not aligned\<close> (a ValueError). A product with a scalar multiplies every entry. The
  receiver \<open>a\<close> must be an array: a numpy scalar has no method \<open>dot\<close> (an AttributeError).
\<close>

definition inner :: "real list \<Rightarrow> real list \<Rightarrow> real" where
  "inner xs ys = sum_list (map2 (*) xs ys)"

definition ncols :: "real list list \<Rightarrow> nat" where
  "ncols A = (case A of [] \<Rightarrow> 0 | r # _ \<Rightarrow> length r)"

definition columns :: "real list list \<Rightarrow> real list list" where
  "columns B = map (\<lambda>j. map (\<lambda>r. r ! j) B) [0..<ncols B]"

fun np_dot :: "ndarray \<Rightarrow> ndarray \<Rightarrow> error + ndarray" where
  "np_dot (Scalar a) b = Inl AttributeError"
| "np_dot (Arr1 xs) (Scalar b) = Inr (Arr1 (map (\<lambda>a. a * b) xs))"
| "np_dot (Arr2 A) (Scalar b) = Inr (Arr2 (map (map (\<lambda>a. a * b)) A))"
| "np_dot (Arr1 xs) (Arr1 ys) =
     (if length xs = length ys then Inr (Scalar (inner xs ys)) else Inl ValueError)"
| "np_dot (Arr2 A) (Arr1 ys) =
     (if ncols A = length ys then Inr (Arr1 (map (\<lambda>r. inner r ys) A)) else Inl ValueError)"
| "np_dot (Arr1 xs) (Arr2 B) =
     (if length xs = length B then Inr (Arr1 (map (inner xs) (columns B)))
      else Inl ValueError)"
| "np_dot (Arr2 A) (Arr2 B) =
     (if ncols A = length B then Inr (Arr2 (map (\<lambda>r. map (inner r) (columns B)) A))
      else Inl ValueError)"

section \<open>The forward pass\<close>

text \<open>
  \<^verbatim>\<open>
  def relu(x):
      negatives = (x < 0)
      x[negatives] = 0.0
      return x
  \<close>
  The value \<open>relu\<close> returns. A numpy scalar supports no item assignment (a TypeError).
  That the array is changed in place is the subject of the store model below.
\<close>

definition clamp :: "real \<Rightarrow> real" where
  "clamp v = (if v < 0 then 0 else v)"

fun relu :: "ndarray \<Rightarrow> error + ndarray" where
  "relu (Scalar v) = Inl TypeError"
| "relu (Arr1 xs) = Inr (Arr1 (map clamp xs))"
| "relu (Arr2 A) = Inr (Arr2 (map (map clamp) A))"

text \<open>
  \<^verbatim>\<open>
  def compute_activations(x, weights, activations):
      assert activations in ['relu', 'linear']
      W1 = weights[0]; b1 = weights[1]; W2 = weights[2]; b2 = weights[3]
      hidden = W1.dot(x) + b1
      if activations == 'relu':
          hidden = relu(hidden)
          final = relu(hidden.dot(W2) + b2)
      else:
          final = hidden.dot(W2) + b2
      return hidden, final
  \<close>
\<close>

definition compute_activations ::
  "real \<Rightarrow> ndarray list \<Rightarrow> string \<Rightarrow> error + (ndarray \<times> ndarray)" where
  "compute_activations x weights activations =
     (if activations \<notin> set [''relu'', ''linear''] then Inl AssertionError
      else case weights of
        W1 # b1 # W2 # b2 # _ \<Rightarrow>
          and_then (dot_scalar W1 x) (\<lambda>t.
          and_then (np_add t b1) (\<lambda>hidden.
            if activations = ''relu'' then
              and_then (relu hidden) (\<lambda>hidden.
              and_then (np_dot hidden W2) (\<lambda>t.
              and_then (np_add t b2) (\<lambda>u.
              and_then (relu u) (\<lambda>final. Inr (hidden, final)))))
            else
              and_then (np_dot hidden W2) (\<lambda>t.
              and_then (np_add t b2) (\<lambda>final. Inr (hidden, final)))))
      | _ \<Rightarrow> Inl IndexError)"

text \<open>
  A weight bundle of the 1-2-1 network, in the shapes the notebook passes:
  \<open>W1\<close> of shape \<open>(1,2)\<close>, \<open>b1\<close> of shape \<open>(2,)\<close>, \<open>W2\<close> of shape \<open>(2,1)\<close> and
  \<open>b2\<close> of shape \<open>(1,)\<close>.
\<close>

definition weight_bundle ::
  "real \<times> real \<Rightarrow> real \<times> real \<Rightarrow> real \<times> real \<Rightarrow> real \<Rightarrow> ndarray list" where
  "weight_bundle W1 b1 W2 b2 =
     [Arr2 [[fst W1, snd W1]], Arr1 [fst b1, snd b1], Arr2 [[fst W2], [snd W2]], Arr1 [b2]]"

section \<open>The forward pass as the specification words it\<close>

text \<open>
  The specification's ForwardPassEvaluator takes an activation policy, an enumerated choice
  the notebook passes as one of two strings, and computes in five steps:
  \<open>hidden = W1 * x + b1\<close>; under the rectified-linear policy \<open>hidden = max(hidden, 0)\<close>;
  \<open>final = dot(hidden, W2) + b2\<close>; under the rectified-linear policy
  \<open>final = max(final, 0)\<close>; return \<open>(hidden, final)\<close>. The definition below follows
  these words on pairs of reals and is what \<open>compute_activations\<close> is compared with.
\<close>

datatype policy = Rectified_linear | Linear

fun policy_name :: "policy \<Rightarrow> string" where
  "policy_name Rectified_linear = ''relu''"
| "policy_name Linear = ''linear''"

definition forward_pass_spec ::
  "real \<Rightarrow> real \<times> real \<Rightarrow> real \<times> real \<Rightarrow> real \<times> real \<Rightarrow> real \<Rightarrow> policy \<Rightarrow>
     (real \<times> real) \<times> real" where
  "forward_pass_spec x W1 b1 W2 b2 p =
     (let hidden = (fst W1 * x + fst b1, snd W1 * x + snd b1);
          hidden = (if p = Rectified_linear then (max (fst hidden) 0, max (snd hidden) 0)
                    else hidden);
          final = (fst hidden * fst W2 + snd hidden * snd W2) + b2;
          final = (if p = Rectified_linear then max final 0 else final)
      in (hidden, final))"

text \<open>
  The pair as the arrays the notebook gets back: a hidden array of shape \<open>(1,2)\<close> and a
  final array of shape \<open>(1,1)\<close>, whose first rows the notebook prints.
\<close>

definition as_arrays :: "(real \<times> real) \<times> real \<Rightarrow> ndarray \<times> ndarray" where
  "as_arrays r = (Arr2 [[fst (fst r), snd (fst r)]], Arr2 [[snd r]])"









text \<open>
  The notebook's closing remark reads the linear output as \<open>x |W1| |W2| cos \<theta>\<close>, with
  \<open>\<theta>\<close> the angle between the two weight vectors (defined for non-zero vectors).
\<close>

definition vec2 :: "real \<times> real \<Rightarrow> real list" where
  "vec2 v = [fst v, snd v]"



section \<open>The forward pass in rounded arithmetic\<close>

text \<open>
  numpy computes on floating-point numbers: every multiplication and every addition
  returns the exact result rounded to the format of the arrays. In the definitions of this
  section the rounding \<open>fl\<close> is a parameter, applied after each arithmetic operation; the
  real-valued definitions above are the case in which \<open>fl\<close> changes nothing. The
  comparison and the assignment of \<open>0.0\<close> in \<open>relu\<close> round nothing. The input \<open>x\<close> and
  the weights are numbers of the format. An inner product adds the rounded products one
  after the other. Overflow, underflow, infinities and NaN are not modelled: \<open>fl\<close> is a
  function on the reals.
\<close>

fun round_array :: "(real \<Rightarrow> real) \<Rightarrow> ndarray \<Rightarrow> ndarray" where
  "round_array fl (Scalar a) = Scalar (fl a)"
| "round_array fl (Arr1 xs) = Arr1 (map fl xs)"
| "round_array fl (Arr2 A) = Arr2 (map (map fl) A)"

definition dot_scalar_fl :: "(real \<Rightarrow> real) \<Rightarrow> ndarray \<Rightarrow> real \<Rightarrow> error + ndarray" where
  "dot_scalar_fl fl a x = and_then (dot_scalar a x) (\<lambda>c. Inr (round_array fl c))"

definition np_add_fl :: "(real \<Rightarrow> real) \<Rightarrow> ndarray \<Rightarrow> ndarray \<Rightarrow> error + ndarray" where
  "np_add_fl fl a b = and_then (np_add a b) (\<lambda>c. Inr (round_array fl c))"

fun accumulate :: "(real \<Rightarrow> real) \<Rightarrow> real \<Rightarrow> real list \<Rightarrow> real" where
  "accumulate fl acc [] = acc"
| "accumulate fl acc (p # ps) = accumulate fl (fl (acc + p)) ps"

definition inner_fl :: "(real \<Rightarrow> real) \<Rightarrow> real list \<Rightarrow> real list \<Rightarrow> real" where
  "inner_fl fl xs ys =
     (case map fl (map2 (*) xs ys) of [] \<Rightarrow> 0 | p # ps \<Rightarrow> accumulate fl p ps)"

fun np_dot_fl :: "(real \<Rightarrow> real) \<Rightarrow> ndarray \<Rightarrow> ndarray \<Rightarrow> error + ndarray" where
  "np_dot_fl fl (Scalar a) b = Inl AttributeError"
| "np_dot_fl fl (Arr1 xs) (Scalar b) = Inr (Arr1 (map (\<lambda>a. fl (a * b)) xs))"
| "np_dot_fl fl (Arr2 A) (Scalar b) = Inr (Arr2 (map (map (\<lambda>a. fl (a * b))) A))"
| "np_dot_fl fl (Arr1 xs) (Arr1 ys) =
     (if length xs = length ys then Inr (Scalar (inner_fl fl xs ys)) else Inl ValueError)"
| "np_dot_fl fl (Arr2 A) (Arr1 ys) =
     (if ncols A = length ys then Inr (Arr1 (map (\<lambda>r. inner_fl fl r ys) A))
      else Inl ValueError)"
| "np_dot_fl fl (Arr1 xs) (Arr2 B) =
     (if length xs = length B then Inr (Arr1 (map (inner_fl fl xs) (columns B)))
      else Inl ValueError)"
| "np_dot_fl fl (Arr2 A) (Arr2 B) =
     (if ncols A = length B then Inr (Arr2 (map (\<lambda>r. map (inner_fl fl r) (columns B)) A))
      else Inl ValueError)"

definition compute_activations_fl ::
  "(real \<Rightarrow> real) \<Rightarrow> real \<Rightarrow> ndarray list \<Rightarrow> string \<Rightarrow> error + (ndarray \<times> ndarray)" where
  "compute_activations_fl fl x weights activations =
     (if activations \<notin> set [''relu'', ''linear''] then Inl AssertionError
      else case weights of
        W1 # b1 # W2 # b2 # _ \<Rightarrow>
          and_then (dot_scalar_fl fl W1 x) (\<lambda>t.
          and_then (np_add_fl fl t b1) (\<lambda>hidden.
            if activations = ''relu'' then
              and_then (relu hidden) (\<lambda>hidden.
              and_then (np_dot_fl fl hidden W2) (\<lambda>t.
              and_then (np_add_fl fl t b2) (\<lambda>u.
              and_then (relu u) (\<lambda>final. Inr (hidden, final)))))
            else
              and_then (np_dot_fl fl hidden W2) (\<lambda>t.
              and_then (np_add_fl fl t b2) (\<lambda>final. Inr (hidden, final)))))
      | _ \<Rightarrow> Inl IndexError)"

text \<open>
  The standard model of floating-point arithmetic: a rounding of unit roundoff \<open>u\<close>
  returns every real with a relative error of at most \<open>u\<close> (\<open>2\<^sup>-\<^sup>2\<^sup>4\<close> for 32-bit and
  \<open>2\<^sup>-\<^sup>5\<^sup>3\<close> for 64-bit floats, as long as nothing overflows or underflows).
\<close>

definition rounds_within :: "real \<Rightarrow> (real \<Rightarrow> real) \<Rightarrow> bool" where
  "rounds_within u fl \<longleftrightarrow> 0 \<le> u \<and> (\<forall>t. \<bar>fl t - t\<bar> \<le> u * \<bar>t\<bar>)"

text \<open>
  Rounding to the nearest binary floating-point number with a significand of \<open>p\<close> bits
  (53 for 64-bit floats), ties to the even neighbour, with an unbounded exponent: a
  non-zero \<open>t\<close> with \<open>2\<^sup>e \<le> |t| < 2\<^sup>e\<^sup>+\<^sup>1\<close> is rounded to a multiple of \<open>2\<^sup>e\<^sup>+\<^sup>1\<^sup>-\<^sup>p\<close>.
\<close>

definition round_even :: "real \<Rightarrow> int" where
  "round_even y =
     (let f = \<lfloor>y\<rfloor>
      in if y - of_int f < 1/2 then f
         else if 1/2 < y - of_int f then f + 1
         else if even f then f else f + 1)"

definition round_binary :: "nat \<Rightarrow> real \<Rightarrow> real" where
  "round_binary p t =
     (if t = 0 then 0
      else let q = 2 powr of_int (\<lfloor>log 2 \<bar>t\<bar>\<rfloor> + 1 - int p)
           in of_int (round_even (t / q)) * q)"

text \<open>
  A computed value \<open>a\<close> is near the exact value \<open>t\<close> after \<open>k\<close> roundings at the scale
  \<open>M\<close>: the scale bounds the exact value, and the error is at most
  \<open>((1 + u)\<^sup>k - 1) * M\<close>.
\<close>

definition near :: "nat \<Rightarrow> real \<Rightarrow> real \<Rightarrow> real \<Rightarrow> real \<Rightarrow> bool" where
  "near k u a t M \<longleftrightarrow> \<bar>a - t\<bar> \<le> ((1 + u) ^ k - 1) * M \<and> \<bar>t\<bar> \<le> M"

text \<open>
  The scale of the linear output: the closed form with every number replaced by its
  absolute value.
\<close>

definition magnitude ::
  "real \<Rightarrow> real \<times> real \<Rightarrow> real \<times> real \<Rightarrow> real \<times> real \<Rightarrow> real \<Rightarrow> real" where
  "magnitude x W1 b1 W2 b2 =
     \<bar>x\<bar> * inner (map abs (vec2 W1)) (map abs (vec2 W2)) +
     inner (map abs (vec2 b1)) (map abs (vec2 W2)) + \<bar>b2\<bar>"

section \<open>Arrays as objects: the forward pass on a store\<close>

text \<open>
  A Python variable holds a reference to an array object, and \<open>relu\<close> assigns into the
  object it is given. The store is the list of the array objects created so far; a
  reference is an index into it. \<^verbatim>\<open>a.dot(x)\<close> and \<^verbatim>\<open>a + b\<close> create a new object,
  \<^verbatim>\<open>x[negatives] = 0.0\<close> overwrites the object \<open>x\<close> refers to, and \<^verbatim>\<open>return x\<close> hands
  back the same reference. The Python float \<open>x\<close> is immutable and passed as a value.

  A reference held by a Python variable always refers to an existing object, so the
  properties of this model are stated for references that are \<open>present\<close> in the store.
\<close>

type_synonym ref = nat

type_synonym store = "ndarray list"

definition present :: "store \<Rightarrow> ref \<Rightarrow> bool" where
  "present s r \<longleftrightarrow> r < length s"

definition alloc :: "ndarray \<Rightarrow> store \<Rightarrow> ref \<times> store" where
  "alloc v s = (length s, s @ [v])"

definition dot_scalar_obj :: "ref \<Rightarrow> real \<Rightarrow> store \<Rightarrow> error + (ref \<times> store)" where
  "dot_scalar_obj a x s = and_then (dot_scalar (s ! a) x) (\<lambda>v. Inr (alloc v s))"

definition np_add_obj :: "ref \<Rightarrow> ref \<Rightarrow> store \<Rightarrow> error + (ref \<times> store)" where
  "np_add_obj a b s = and_then (np_add (s ! a) (s ! b)) (\<lambda>v. Inr (alloc v s))"

definition np_dot_obj :: "ref \<Rightarrow> ref \<Rightarrow> store \<Rightarrow> error + (ref \<times> store)" where
  "np_dot_obj a b s = and_then (np_dot (s ! a) (s ! b)) (\<lambda>v. Inr (alloc v s))"

text \<open>\<open>relu\<close> on an object: the array at \<open>x\<close> is overwritten, and \<open>x\<close> is returned.\<close>

definition relu_obj :: "ref \<Rightarrow> store \<Rightarrow> error + (ref \<times> store)" where
  "relu_obj x s = and_then (relu (s ! x)) (\<lambda>v. Inr (x, s[x := v]))"

text \<open>
  \<open>compute_activations\<close> on objects: \<open>weights\<close> is the list of the references the Python
  list holds; the result is the pair of references to \<open>hidden\<close> and \<open>final\<close>, and the
  store the call leaves behind.
\<close>

definition compute_activations_obj ::
  "real \<Rightarrow> ref list \<Rightarrow> string \<Rightarrow> store \<Rightarrow> error + ((ref \<times> ref) \<times> store)" where
  "compute_activations_obj x weights activations s =
     (if activations \<notin> set [''relu'', ''linear''] then Inl AssertionError
      else case weights of
        W1 # b1 # W2 # b2 # _ \<Rightarrow>
          and_then (dot_scalar_obj W1 x s) (\<lambda>(t, s).
          and_then (np_add_obj t b1 s) (\<lambda>(hidden, s).
            if activations = ''relu'' then
              and_then (relu_obj hidden s) (\<lambda>(hidden, s).
              and_then (np_dot_obj hidden W2 s) (\<lambda>(t, s).
              and_then (np_add_obj t b2 s) (\<lambda>(u, s).
              and_then (relu_obj u s) (\<lambda>(final, s). Inr ((hidden, final), s)))))
            else
              and_then (np_dot_obj hidden W2 s) (\<lambda>(t, s).
              and_then (np_add_obj t b2 s) (\<lambda>(final, s). Inr ((hidden, final), s)))))
      | _ \<Rightarrow> Inl IndexError)"

section \<open>The data simulation cell\<close>

text \<open>
  \<^verbatim>\<open>
  n_samples = 2000
  n_features = 1
  x = np.ones((n_samples, n_features))
  np.random.seed(23)
  y = np.random.uniform(size=n_samples)
  for idx in range(n_samples):
      x[idx] *= y[idx]
  x_train, x_test, y_train, y_test = train_test_split(x, y, test_size=0.2, random_state=23)
  \<close>
  The cell is modelled as a function of the sample count and of the seed (2000 and 23 in
  the notebook) and of the state of numpy's global random generator, which it returns
  updated; an exception leaves the generator in the state reached.

  The generators themselves belong to numpy and are parameters of the model: the state
  \<open>np.random.seed\<close> installs, the draws of \<open>np.random.uniform\<close> together with the state
  they leave, and the permutation that the private generator of \<open>train_test_split\<close>
  (seeded with \<open>random_state\<close>) draws.
\<close>

record 'g numpy_lib =
  rng_seed :: "nat \<Rightarrow> 'g"
  rng_uniform :: "nat \<Rightarrow> 'g \<Rightarrow> real list \<times> 'g"
  rng_permutation :: "nat \<Rightarrow> nat \<Rightarrow> nat list"

text \<open>
  What the generators guarantee: as many draws as asked for, and a permutation of the
  indices \<open>0, \<dots>, n - 1\<close>. Under this guarantee every index the cell and the split use is
  in range.
\<close>

definition lib_ok :: "'g numpy_lib \<Rightarrow> bool" where
  "lib_ok lib \<longleftrightarrow>
     (\<forall>n g. length (fst (rng_uniform lib n g)) = n) \<and>
     (\<forall>k n. distinct (rng_permutation lib k n) \<and> set (rng_permutation lib k n) = {0..<n})"

text \<open>\<^verbatim>\<open>np.ones((n, m))\<close>: negative dimensions are not allowed (a ValueError).\<close>

definition np_ones :: "int \<Rightarrow> nat \<Rightarrow> error + real list list" where
  "np_ones n m = (if n < 0 then Inl ValueError else Inr (replicate (nat n) (replicate m 1)))"

text \<open>\<^verbatim>\<open>np.random.seed(k)\<close>: the seed must be between 0 and \<open>2**32 - 1\<close> (a ValueError
  otherwise); the global generator is replaced.\<close>

definition np_random_seed :: "'g numpy_lib \<Rightarrow> int \<Rightarrow> error + 'g" where
  "np_random_seed lib k =
     (if 0 \<le> k \<and> k < 2 ^ 32 then Inr (rng_seed lib (nat k)) else Inl ValueError)"

text \<open>The loop \<^verbatim>\<open>for idx in range(n_samples): x[idx] *= y[idx]\<close>.\<close>

definition scale_rows :: "nat \<Rightarrow> real list \<Rightarrow> real list list \<Rightarrow> real list list" where
  "scale_rows n y x = fold (\<lambda>idx x. x[idx := map (\<lambda>v. v * y ! idx) (x ! idx)]) [0..<n] x"

text \<open>
  \<^verbatim>\<open>train_test_split(x, y, test_size=0.2, random_state=k)\<close> of scikit-learn: both arrays
  must have one length; the test set gets \<open>ceil(0.2 * n)\<close> samples and the training set
  the rest; an empty training set is refused (a ValueError); the first \<open>n_test\<close> indices
  of the permutation select the test rows and the following \<open>n_train\<close> the training rows.
  The result is \<open>(x_train, x_test, y_train, y_test)\<close>.
\<close>

type_synonym split = "real list list \<times> real list list \<times> real list \<times> real list"

definition train_test_split ::
  "'g numpy_lib \<Rightarrow> real list list \<Rightarrow> real list \<Rightarrow> nat \<Rightarrow> error + split" where
  "train_test_split lib x y k =
     (if length x \<noteq> length y then Inl ValueError
      else
        let n = length x;
            n_test = nat \<lceil>0.2 * real n\<rceil>;
            n_train = n - n_test
        in if n_train = 0 then Inl ValueError
           else
             let permutation = rng_permutation lib k n;
                 ind_test = take n_test permutation;
                 ind_train = take n_train (drop n_test permutation)
             in Inr (map ((!) x) ind_train, map ((!) x) ind_test,
                     map ((!) y) ind_train, map ((!) y) ind_test))"

definition data_simulation ::
  "'g numpy_lib \<Rightarrow> int \<Rightarrow> int \<Rightarrow> 'g \<Rightarrow> (error + split) \<times> 'g" where
  "data_simulation lib seed n_samples g =
     (case np_ones n_samples 1 of
        Inl e \<Rightarrow> (Inl e, g)
      | Inr x \<Rightarrow>
          (case np_random_seed lib seed of
             Inl e \<Rightarrow> (Inl e, g)
           | Inr g \<Rightarrow>
               (case rng_uniform lib (nat n_samples) g of
                  (y, g) \<Rightarrow>
                    (train_test_split lib (scale_rows (nat n_samples) y x) y (nat seed), g))))"

text \<open>
  A small deterministic stand-in for the generators, on which the theorems below are
  instantiated: the state is a counter, the draws are \<open>1/(g+2), 1/(g+3), \<dots>\<close> in
  \<open>(0,1)\<close>, and the permutation reverses the indices.
\<close>

definition example_lib :: "nat numpy_lib" where
  "example_lib =
     \<lparr>rng_seed = (\<lambda>k. k),
      rng_uniform = (\<lambda>n g. (map (\<lambda>i. 1 / real (g + i + 2)) [0..<n], g + n)),
      rng_permutation = (\<lambda>k n. rev [0..<n])\<rparr>"

section \<open>Properties of the forward pass\<close>

subsection \<open>Closed forms on a bundle of the 1-2-1 shapes\<close>

lemmas forward_defs = compute_activations_def weight_bundle_def and_then_def add_mat_def
  add_vec_def ncols_def columns_def inner_def

lemma compute_linear:
  "compute_activations x (weight_bundle (w11, w12) (b11, b12) (w21, w22) b2) ''linear'' =
     Inr (Arr2 [[w11 * x + b11, w12 * x + b12]],
          Arr2 [[(w11 * x + b11) * w21 + (w12 * x + b12) * w22 + b2]])"
  by (simp add: forward_defs)

lemma compute_relu:
  "compute_activations x (weight_bundle (w11, w12) (b11, b12) (w21, w22) b2) ''relu'' =
     Inr (Arr2 [[clamp (w11 * x + b11), clamp (w12 * x + b12)]],
          Arr2 [[clamp (clamp (w11 * x + b11) * w21 + clamp (w12 * x + b12) * w22 + b2)]])"
  by (simp add: forward_defs)

subsection \<open>Which errors the numpy operations raise\<close>

lemma and_then_eq_Inl:
  "and_then m f = Inl e \<longleftrightarrow> m = Inl e \<or> (\<exists>v. m = Inr v \<and> f v = Inl e)"
  by (cases m) (simp_all add: and_then_def)

lemma collect_not_assert:
  assumes "\<And>r. r \<in> set rs \<Longrightarrow> r \<noteq> Inl AssertionError"
  shows "collect rs \<noteq> Inl AssertionError"
  using assms by (induction rs) (auto simp: and_then_def split: sum.splits)

lemma add_vec_not_assert: "add_vec xs ys \<noteq> Inl AssertionError"
  by (simp add: add_vec_def)

lemma add_mat_not_assert: "add_mat A B \<noteq> Inl AssertionError"
proof -
  have 1: "collect (map2 add_vec A B) \<noteq> Inl AssertionError"
    by (rule collect_not_assert) (auto simp: add_vec_not_assert)
  have 2: "collect (map (add_vec (hd A)) B) \<noteq> Inl AssertionError"
    by (rule collect_not_assert) (auto simp: add_vec_not_assert)
  have 3: "collect (map (\<lambda>r. add_vec r (hd B)) A) \<noteq> Inl AssertionError"
    by (rule collect_not_assert) (auto simp: add_vec_not_assert)
  show ?thesis
    using 1 2 3 by (simp add: add_mat_def)
qed

lemma np_add_not_assert: "np_add a b \<noteq> Inl AssertionError"
  using add_vec_not_assert add_mat_not_assert
  by (cases a; cases b) (auto simp: and_then_def split: sum.splits)

lemma np_dot_not_assert: "np_dot a b \<noteq> Inl AssertionError"
  by (cases a; cases b) auto

lemma dot_scalar_not_assert: "dot_scalar a x \<noteq> Inl AssertionError"
  by (cases a) auto

lemma relu_not_assert: "relu a \<noteq> Inl AssertionError"
  by (cases a) auto

subsection \<open>The assertion on the activation name\<close>

text \<open>
  C10. \<open>compute_activations\<close> accepts exactly the two names \<^verbatim>\<open>'relu'\<close> and
  \<^verbatim>\<open>'linear'\<close>: for any other name it fails with an AssertionError whatever the input
  and the weights are (nothing has been computed yet, not even the indexing of the weight
  list), and for these two names no AssertionError is raised, whatever else happens.
\<close>

theorem assertion_exactly_on_unknown_policy:
  "(activations \<noteq> ''relu'' \<and> activations \<noteq> ''linear'' \<longrightarrow>
      compute_activations x weights activations = Inl AssertionError) \<and>
   (activations = ''relu'' \<or> activations = ''linear'' \<longrightarrow>
      compute_activations x weights activations \<noteq> Inl AssertionError)"
proof (intro conjI impI)
  assume "activations \<noteq> ''relu'' \<and> activations \<noteq> ''linear''"
  then show "compute_activations x weights activations = Inl AssertionError"
    by (simp add: compute_activations_def)
next
  assume ok: "activations = ''relu'' \<or> activations = ''linear''"
  then have "activations \<in> set [''relu'', ''linear'']"
    by auto
  then show "compute_activations x weights activations \<noteq> Inl AssertionError"
    unfolding compute_activations_def
    by (simp only: if_not_P not_not)
       (simp add: and_then_eq_Inl np_add_not_assert np_dot_not_assert relu_not_assert
          dot_scalar_not_assert split: list.splits)
qed

theorem assertion_exactly_on_unknown_policy_witness:
  "compute_activations (1/2) [] ''tanh'' = Inl AssertionError \<and>
   compute_activations (1/2) [] ''relu'' \<noteq> Inl AssertionError \<and>
   compute_activations (1/2) [] ''linear'' \<noteq> Inl AssertionError"
  using assertion_exactly_on_unknown_policy [of "''tanh''" "1/2" "[]"]
    assertion_exactly_on_unknown_policy [of "''relu''" "1/2" "[]"]
    assertion_exactly_on_unknown_policy [of "''linear''" "1/2" "[]"]
  by simp

lemma clamp_max: "clamp v = max v 0"
  by (simp add: clamp_def max_def)

subsection \<open>The five steps of the evaluator\<close>

text \<open>
  C2. For every scalar input \<open>x\<close>, every weight bundle of the 1-2-1 shapes and each of the
  two activation policies, \<open>compute_activations\<close> returns what the five steps of the
  specification compute: the affine map \<open>W1 * x + b1\<close>, clamped at zero exactly under the
  rectified-linear policy, then \<open>dot(hidden, W2) + b2\<close>, clamped at zero exactly under the
  rectified-linear policy; the hidden vector it returns is the clamped one.
\<close>

theorem forward_pass_refines_spec:
  "compute_activations x (weight_bundle W1 b1 W2 b2) (policy_name p) =
     Inr (as_arrays (forward_pass_spec x W1 b1 W2 b2 p))"
proof (cases p)
  case Rectified_linear
  then show ?thesis
    using compute_relu [of x "fst W1" "snd W1" "fst b1" "snd b1" "fst W2" "snd W2" b2]
    by (simp add: forward_pass_spec_def as_arrays_def clamp_max Let_def)
next
  case Linear
  then show ?thesis
    using compute_linear [of x "fst W1" "snd W1" "fst b1" "snd b1" "fst W2" "snd W2" b2]
    by (simp add: forward_pass_spec_def as_arrays_def Let_def)
qed

theorem forward_pass_refines_spec_witness:
  "compute_activations 1 (weight_bundle (1, -1) (0, 0) (2, 3) 1) ''relu'' =
     Inr (Arr2 [[1, 0]], Arr2 [[3]]) \<and>
   compute_activations 1 (weight_bundle (1, -1) (0, 0) (2, 3) 1) ''linear'' =
     Inr (Arr2 [[1, -1]], Arr2 [[0]])"
  using forward_pass_refines_spec [of 1 "(1, -1)" "(0, 0)" "(2, 3)" 1 Rectified_linear]
    forward_pass_refines_spec [of 1 "(1, -1)" "(0, 0)" "(2, 3)" 1 Linear]
  by (simp add: forward_pass_spec_def as_arrays_def Let_def)

subsection \<open>Saturation of the rectified-linear hidden layer\<close>

text \<open>
  C1, as stated, quantifies over every bundle with a strictly negative \<open>W1\<close>. The biases
  matter: with \<open>W1 = [-1, -1]\<close>, \<open>x = 1\<close> and \<open>b1 = [2, 2]\<close> both hidden units are active,
  and with zero \<open>b1\<close> but \<open>b2 = 1\<close> the hidden layer is saturated while the final output
  is 1.
\<close>

theorem saturation_counterexample:
  "compute_activations 1 (weight_bundle (-1, -1) (2, 2) (1, 1) 0) ''relu'' =
     Inr (Arr2 [[1, 1]], Arr2 [[2]]) \<and>
   compute_activations 1 (weight_bundle (-1, -1) (0, 0) (1, 1) 1) ''relu'' =
     Inr (Arr2 [[0, 0]], Arr2 [[1]])"
  by (simp add: compute_relu clamp_def)

text \<open>
  C1, amended. For every weight bundle whose \<open>W1\<close> is strictly negative in both
  components, whose biases \<open>b1\<close> and \<open>b2\<close> are not positive (zero in the notebook), and
  for every input \<open>x > 0\<close>, \<open>compute_activations\<close> under the rectified-linear policy
  returns a hidden vector whose two components are exactly zero and a final output of
  exactly zero, whatever \<open>W2\<close> is.
\<close>

theorem saturation:
  assumes "w11 < 0" and "w12 < 0" and "0 < x"
    and "b11 \<le> 0" and "b12 \<le> 0" and "b2 \<le> 0"
  shows "compute_activations x (weight_bundle (w11, w12) (b11, b12) W2 b2) ''relu'' =
     Inr (Arr2 [[0, 0]], Arr2 [[0]])"
proof -
  have "w11 * x < 0" and "w12 * x < 0"
    using assms by (simp_all add: mult_neg_pos)
  then have h: "clamp (w11 * x + b11) = 0" "clamp (w12 * x + b12) = 0"
    using assms by (simp_all add: clamp_def)
  have f: "clamp b2 = 0"
    using assms by (simp add: clamp_def)
  show ?thesis
    using compute_relu [of x w11 w12 b11 b12 "fst W2" "snd W2" b2]
    by (simp add: h f)
qed

theorem saturation_witness:
  "compute_activations (1/2) (weight_bundle (-1, -2) (0, -1) (3, 4) 0) ''relu'' =
     Inr (Arr2 [[0, 0]], Arr2 [[0]])"
  using saturation [of "-1" "-2" "1/2" 0 "-1" 0 "(3, 4)"] by simp

subsection \<open>The linear policy in closed form\<close>






subsection \<open>The reference scenario\<close>

text \<open>
  The notebook prints the initial weights \<open>W1 = [-0.16988075, -1.1390355]\<close> and
  \<open>W2 = [1.2553526, -0.45677203]\<close> with zero biases, and for \<open>x = 0.5\<close> the linear
  activations \<open>[-0.08494037, -0.56951773]\<close> and \<open>[0.15350965]\<close>. Exact arithmetic on the
  printed weights gives these values to within \<open>1e-7\<close>.
\<close>

lemma notebook_printed_output:
  "compute_activations (1/2)
      (weight_bundle (-0.16988075, -1.1390355) (0, 0) (1.2553526, -0.45677203) 0) ''linear'' =
     Inr (Arr2 [[-0.084940375, -0.56951775]], Arr2 [[61403863274923 / 400000000000000]]) \<and>
   \<bar>-0.084940375 - (-0.08494037)\<bar> \<le> (1 / 10 ^ 7 :: real) \<and>
   \<bar>-0.56951775 - (-0.56951773)\<bar> \<le> (1 / 10 ^ 7 :: real) \<and>
   \<bar>61403863274923 / 400000000000000 - 0.15350965\<bar> \<le> (1 / 10 ^ 7 :: real)"
  by (simp add: compute_linear)

text \<open>
  C4. For the reference bundle \<open>W1 = [-0.1699, -1.1390]\<close>, \<open>b1 = [0, 0]\<close>,
  \<open>W2 = [1.2554, -0.4568]\<close>, \<open>b2 = [0]\<close> and input \<open>x = 0.5\<close>, the linear policy
  returns the hidden row \<open>[-0.08495, -0.5695]\<close> and the final row \<open>[0.15350137]\<close> in exact
  arithmetic, which agree with \<open>[-0.0849, -0.5695]\<close> and \<open>0.1535\<close> to within one unit of
  the fourth decimal; the rectified-linear policy returns \<open>[0, 0]\<close> and \<open>[0]\<close>.
\<close>

theorem reference_scenario:
  "compute_activations (1/2) (weight_bundle (-0.1699, -1.1390) (0, 0) (1.2554, -0.4568) 0)
      ''linear'' = Inr (Arr2 [[-0.08495, -0.5695]], Arr2 [[0.15350137]]) \<and>
   \<bar>-0.08495 - (-0.0849)\<bar> \<le> (1 / 10 ^ 4 :: real) \<and>
   \<bar>-0.5695 - (-0.5695)\<bar> \<le> (1 / 10 ^ 4 :: real) \<and>
   \<bar>0.15350137 - 0.1535\<bar> \<le> (1 / 10 ^ 4 :: real) \<and>
   compute_activations (1/2) (weight_bundle (-0.1699, -1.1390) (0, 0) (1.2554, -0.4568) 0)
      ''relu'' = Inr (Arr2 [[0, 0]], Arr2 [[0]])"
  by (simp add: compute_relu compute_linear clamp_def)

theorem reference_scenario_witness:
  "compute_activations (1/2) (weight_bundle (-0.1699, -1.1390) (0, 0) (1.2554, -0.4568) 0)
      ''relu'' = Inr (Arr2 [[0, 0]], Arr2 [[0]])"
  using reference_scenario by (rule conjunct2 [OF conjunct2 [OF conjunct2 [OF conjunct2]]])

subsection \<open>The input zero\<close>

text \<open>
  C5, as stated, holds under either policy. Under the rectified-linear policy the clamping
  is still applied: with \<open>b1 = [0, 0]\<close> and \<open>b2 = -1\<close> the final output is 0, not
  \<open>dot(b1, W2) + b2 = -1\<close>, and with \<open>b1 = [-1, 0]\<close> the hidden vector is \<open>[0, 0]\<close>, not
  \<open>b1\<close>.
\<close>

theorem zero_input_counterexample:
  "compute_activations 0 (weight_bundle (1, 1) (0, 0) (1, 1) (-1)) ''relu'' =
     Inr (Arr2 [[0, 0]], Arr2 [[0]]) \<and>
   inner [0, 0] [1, 1] + (-1) \<noteq> (0::real) \<and>
   compute_activations 0 (weight_bundle (1, 1) (-1, 0) (1, 1) 0) ''relu'' =
     Inr (Arr2 [[0, 0]], Arr2 [[0]])"
  by (simp add: compute_relu clamp_def inner_def)

text \<open>
  C5, amended. For every weight bundle, the input \<open>x = 0\<close> makes \<open>compute_activations\<close>
  return \<open>hidden = b1\<close> and \<open>final = dot(b1, W2) + b2\<close> under the linear policy. Under
  the rectified-linear policy it returns \<open>hidden = max(b1, 0)\<close> and
  \<open>final = max(dot(max(b1, 0), W2) + b2, 0)\<close>, and these are \<open>b1\<close> and
  \<open>dot(b1, W2) + b2\<close> exactly when no clamping is triggered, that is when \<open>b1\<close> has no
  negative component and \<open>dot(b1, W2) + b2\<close> is not negative (in particular when
  \<open>b1 = 0\<close> and \<open>b2 \<ge> 0\<close>); otherwise the rectified-linear policy clamps and the
  result differs.
\<close>

theorem zero_input:
  "compute_activations 0 (weight_bundle W1 b1 W2 b2) ''linear'' =
     Inr (Arr2 [vec2 b1], Arr2 [[inner (vec2 b1) (vec2 W2) + b2]]) \<and>
   compute_activations 0 (weight_bundle W1 b1 W2 b2) ''relu'' =
     Inr (Arr2 [map clamp (vec2 b1)],
          Arr2 [[clamp (inner (map clamp (vec2 b1)) (vec2 W2) + b2)]]) \<and>
   (compute_activations 0 (weight_bundle W1 b1 W2 b2) ''relu'' =
      Inr (Arr2 [vec2 b1], Arr2 [[inner (vec2 b1) (vec2 W2) + b2]]) \<longleftrightarrow>
    0 \<le> fst b1 \<and> 0 \<le> snd b1 \<and> 0 \<le> inner (vec2 b1) (vec2 W2) + b2)"
proof -
  have lin: "compute_activations 0 (weight_bundle W1 b1 W2 b2) ''linear'' =
     Inr (Arr2 [vec2 b1], Arr2 [[inner (vec2 b1) (vec2 W2) + b2]])"
    using compute_linear [of 0 "fst W1" "snd W1" "fst b1" "snd b1" "fst W2" "snd W2" b2]
    by (simp add: vec2_def inner_def)
  have rel: "compute_activations 0 (weight_bundle W1 b1 W2 b2) ''relu'' =
     Inr (Arr2 [map clamp (vec2 b1)],
          Arr2 [[clamp (inner (map clamp (vec2 b1)) (vec2 W2) + b2)]])"
    using compute_relu [of 0 "fst W1" "snd W1" "fst b1" "snd b1" "fst W2" "snd W2" b2]
    by (simp add: vec2_def inner_def)
  have iff: "(Inr (Arr2 [map clamp (vec2 b1)],
          Arr2 [[clamp (inner (map clamp (vec2 b1)) (vec2 W2) + b2)]]) =
      (Inr (Arr2 [vec2 b1], Arr2 [[inner (vec2 b1) (vec2 W2) + b2]]) :: error + ndarray \<times> ndarray)) \<longleftrightarrow>
    0 \<le> fst b1 \<and> 0 \<le> snd b1 \<and> 0 \<le> inner (vec2 b1) (vec2 W2) + b2"
    by (auto simp: vec2_def inner_def clamp_def split: if_splits)
  show ?thesis
    unfolding rel using lin iff by blast
qed

theorem zero_input_witness:
  "compute_activations 0 (weight_bundle (5, 6) (1, 2) (3, -1) 4) ''linear'' =
     Inr (Arr2 [[1, 2]], Arr2 [[5]]) \<and>
   compute_activations 0 (weight_bundle (5, 6) (1, 2) (3, -1) 4) ''relu'' =
     Inr (Arr2 [[1, 2]], Arr2 [[5]]) \<and>
   compute_activations 0 (weight_bundle (5, 6) (-1, 2) (3, 1) (-4)) ''relu'' =
     Inr (Arr2 [[0, 2]], Arr2 [[0]]) \<and>
   compute_activations 0 (weight_bundle (5, 6) (-1, 2) (3, 1) (-4)) ''relu'' \<noteq>
     Inr (Arr2 [[-1, 2]], Arr2 [[-5]])"
proof -
  note a = zero_input [of "(5, 6)" "(1, 2)" "(3, -1)" 4]
  note b = zero_input [of "(5, 6)" "(-1, 2)" "(3, 1)" "-4"]
  have 1: "compute_activations 0 (weight_bundle (5, 6) (1, 2) (3, -1) 4) ''linear'' =
     Inr (Arr2 [[1, 2]], Arr2 [[5]])"
    using a by (simp add: vec2_def inner_def)
  have 2: "compute_activations 0 (weight_bundle (5, 6) (1, 2) (3, -1) 4) ''relu'' =
     Inr (Arr2 [[1, 2]], Arr2 [[5]])"
    using conjunct2 [OF conjunct2 [OF a]] by (simp add: vec2_def inner_def)
  have 3: "compute_activations 0 (weight_bundle (5, 6) (-1, 2) (3, 1) (-4)) ''relu'' =
     Inr (Arr2 [[0, 2]], Arr2 [[0]])"
    using conjunct1 [OF conjunct2 [OF b]] by (simp add: vec2_def inner_def clamp_def)
  have 4: "compute_activations 0 (weight_bundle (5, 6) (-1, 2) (3, 1) (-4)) ''relu'' \<noteq>
     Inr (Arr2 [[-1, 2]], Arr2 [[-5]])"
    using conjunct2 [OF conjunct2 [OF b]] by (simp add: vec2_def inner_def)
  from 1 2 3 4 show ?thesis by blast
qed

subsection \<open>Shapes\<close>
















































section \<open>Properties of the store model\<close>

text \<open>
  On a store in which the weights are present, the call creates four objects (the product
  \<open>W1.dot(x)\<close>, \<open>hidden\<close>, the product \<open>hidden.dot(W2)\<close> and \<open>final\<close>) and the values
  of the last three are those of the value-level definition.
\<close>

lemma compute_activations_obj_relu:
  assumes "present s W1" "present s b1" "present s W2" "present s b2"
  shows "compute_activations_obj x (W1 # b1 # W2 # b2 # rest) ''relu'' s =
   and_then (dot_scalar (s ! W1) x) (\<lambda>t0.
   and_then (np_add t0 (s ! b1)) (\<lambda>h0.
   and_then (relu h0) (\<lambda>hidden.
   and_then (np_dot hidden (s ! W2)) (\<lambda>t.
   and_then (np_add t (s ! b2)) (\<lambda>u.
   and_then (relu u) (\<lambda>final.
     Inr ((length s + 1, length s + 3), s @ [t0, hidden, t, final])))))))"
  using assms
  by (simp add: compute_activations_obj_def dot_scalar_obj_def np_add_obj_def np_dot_obj_def
      relu_obj_def alloc_def and_then_def present_def nth_append list_update_append
      split: sum.splits)

lemma compute_activations_obj_linear:
  assumes "present s W1" "present s b1" "present s W2" "present s b2"
  shows "compute_activations_obj x (W1 # b1 # W2 # b2 # rest) ''linear'' s =
   and_then (dot_scalar (s ! W1) x) (\<lambda>t0.
   and_then (np_add t0 (s ! b1)) (\<lambda>hidden.
   and_then (np_dot hidden (s ! W2)) (\<lambda>t.
   and_then (np_add t (s ! b2)) (\<lambda>final.
     Inr ((length s + 1, length s + 3), s @ [t0, hidden, t, final])))))"
  using assms
  by (simp add: compute_activations_obj_def dot_scalar_obj_def np_add_obj_def np_dot_obj_def
      relu_obj_def alloc_def and_then_def present_def nth_append list_update_append
      split: sum.splits)

lemma compute_activations_obj_value:
  assumes "\<forall>r \<in> set weights. present s r"
  shows "map_sum id (\<lambda>((h, f), s'). (s' ! h, s' ! f))
           (compute_activations_obj x weights activations s) =
         compute_activations x (map ((!) s) weights) activations"
proof (cases "activations = ''relu'' \<or> activations = ''linear''")
  case False
  then show ?thesis
    by (simp add: compute_activations_obj_def compute_activations_def)
next
  case known: True
  show ?thesis
  proof (cases "\<exists>W1 b1 W2 b2 rest. weights = W1 # b1 # W2 # b2 # rest")
    case False
    then show ?thesis
      by (simp add: compute_activations_obj_def compute_activations_def split: list.splits)
  next
    case True
    then obtain W1 b1 W2 b2 rest where w: "weights = W1 # b1 # W2 # b2 # rest"
      by blast
    then have p: "present s W1" "present s b1" "present s W2" "present s b2"
      using assms by simp_all
    from known show ?thesis
    proof
      assume "activations = ''relu''"
      then show ?thesis
        unfolding w using compute_activations_obj_relu [OF p, of x rest]
        by (simp add: compute_activations_def and_then_def nth_append numeral_3_eq_3
            split: sum.splits)
    next
      assume "activations = ''linear''"
      then show ?thesis
        unfolding w using compute_activations_obj_linear [OF p, of x rest]
        by (simp add: compute_activations_def and_then_def nth_append numeral_3_eq_3
            split: sum.splits)
    qed
  qed
qed

lemma compute_activations_obj_frame:
  assumes "\<forall>r \<in> set weights. present s r"
    and "compute_activations_obj x weights activations s = Inr ((h, f), s')"
  shows "take (length s) s' = s \<and> length s' = length s + 4 \<and>
         h = length s + 1 \<and> f = length s + 3"
proof -
  from assms(2) have known: "activations = ''relu'' \<or> activations = ''linear''"
    by (auto simp: compute_activations_obj_def split: if_splits)
  from assms(2) obtain W1 b1 W2 b2 rest where w: "weights = W1 # b1 # W2 # b2 # rest"
    by (auto simp: compute_activations_obj_def split: if_splits list.splits)
  then have p: "present s W1" "present s b1" "present s W2" "present s b2"
    using assms(1) by simp_all
  from known show ?thesis
  proof
    assume "activations = ''relu''"
    then show ?thesis
      using assms(2) compute_activations_obj_relu [OF p, of x rest] unfolding w
      by (auto simp: and_then_def split: sum.splits)
  next
    assume "activations = ''linear''"
    then show ?thesis
      using assms(2) compute_activations_obj_linear [OF p, of x rest] unfolding w
      by (auto simp: and_then_def split: sum.splits)
  qed
qed

lemma relu_obj_in_place:
  "relu_obj x s = Inr (r, s') \<longleftrightarrow> (\<exists>v. relu (s ! x) = Inr v \<and> r = x \<and> s' = s[x := v])"
  by (auto simp: relu_obj_def and_then_def split: sum.splits)

section \<open>Properties of the data simulation\<close>

lemma data_simulation_result_independent:
  "fst (data_simulation lib seed n g) = fst (data_simulation lib seed n g')"
  by (simp add: data_simulation_def split: sum.splits prod.splits)

lemma data_simulation_state:
  assumes "0 \<le> n" and "0 \<le> seed" and "seed < 2 ^ 32"
  shows "snd (data_simulation lib seed n g) =
     snd (rng_uniform lib (nat n) (rng_seed lib (nat seed)))"
  using assms
  by (simp add: data_simulation_def np_ones_def np_random_seed_def split: prod.splits)

lemma n_test_div: "nat \<lceil>real n / 5\<rceil> = (n + 4) div 5"
proof -
  have "real n / 5 = of_int (int n) / of_int 5" by simp
  then have "\<lceil>real n / 5\<rceil> = - (- int n div 5)"
    by (simp only: ceiling_divide_eq_div)
  then show ?thesis by simp
qed

lemma n_test_less: "2 \<le> n \<Longrightarrow> nat \<lceil>0.2 * real n\<rceil> < n"
  by (simp add: n_test_div)

lemma scale_rows_prefix:
  assumes "length y = n" and "k \<le> n"
  shows "scale_rows k y (replicate n [1]) =
     map (\<lambda>v. [v]) (take k y) @ replicate (n - k) [1]"
  using assms(2)
proof (induction k)
  case 0
  then show ?case by (simp add: scale_rows_def)
next
  case (Suc k)
  then have k: "k < n" by simp
  have "scale_rows (Suc k) y (replicate n [1]) =
     (scale_rows k y (replicate n [1]))
       [k := map (\<lambda>v. v * y ! k) (scale_rows k y (replicate n [1]) ! k)]"
    by (simp add: scale_rows_def)
  also have "\<dots> = (map (\<lambda>v. [v]) (take k y) @ replicate (n - k) [1])
       [k := map (\<lambda>v. v * y ! k) ((map (\<lambda>v. [v]) (take k y) @ replicate (n - k) [1]) ! k)]"
    using Suc by simp
  also have "\<dots> = map (\<lambda>v. [v]) (take k y) @ ([y ! k] # replicate (n - Suc k) [1])"
    using k assms(1)
    by (simp add: list_update_append nth_append Suc_diff_Suc replicate_Suc [symmetric] del: replicate_Suc)
       (metis Suc_diff_Suc list_update_code(2) replicate_Suc)
  also have "\<dots> = map (\<lambda>v. [v]) (take (Suc k) y) @ replicate (n - Suc k) [1]"
    using k assms(1) by (simp add: take_Suc_conv_app_nth)
  finally show ?case .
qed

lemma scale_rows_all:
  assumes "length y = n"
  shows "scale_rows n y (replicate n [1]) = map (\<lambda>v. [v]) y"
  using scale_rows_prefix [OF assms, of n] assms by simp


lemma lib_ok_example: "lib_ok example_lib"
  by (simp add: lib_ok_def example_lib_def)

lemma train_test_split_error:
  "length x \<le> 1 \<Longrightarrow> train_test_split lib x y k = Inl ValueError"
proof -
  assume "length x \<le> 1"
  then consider "length x = 0" | "length x = 1" by linarith
  then show ?thesis
    by cases (auto simp: train_test_split_def Let_def n_test_div)
qed

lemma length_scale_rows: "length (scale_rows n y x) = length x"
proof -
  have "length (fold (\<lambda>idx x. x[idx := map (\<lambda>v. v * y ! idx) (x ! idx)]) is x) = length x"
    for "is"
    by (induction "is" arbitrary: x) simp_all
  then show ?thesis by (simp add: scale_rows_def)
qed

lemma data_simulation_small:
  assumes "n \<le> 1" and "0 \<le> seed" and "seed < 2 ^ 32"
  shows "fst (data_simulation lib seed n g) = Inl ValueError"
proof (cases "n < 0")
  case True
  then show ?thesis by (simp add: data_simulation_def np_ones_def)
next
  case False
  have "length (scale_rows (nat n) y (replicate (nat n) [1])) \<le> 1" for y
    using assms(1) by (simp add: length_scale_rows)
  then show ?thesis
    using False assms
    by (simp add: data_simulation_def np_ones_def np_random_seed_def train_test_split_error
        split: prod.splits)
qed

lemma train_test_split_ok:
  assumes ok: "lib_ok lib" and len: "length y = n" and n: "2 \<le> n"
  shows "train_test_split lib (map (\<lambda>v. [v]) y) y k =
     Inr (map (\<lambda>v. [v]) (map ((!) y) (take (n - nat \<lceil>0.2 * real n\<rceil>)
                                   (drop (nat \<lceil>0.2 * real n\<rceil>) (rng_permutation lib k n)))),
          map (\<lambda>v. [v]) (map ((!) y) (take (nat \<lceil>0.2 * real n\<rceil>) (rng_permutation lib k n))),
          map ((!) y) (take (n - nat \<lceil>0.2 * real n\<rceil>)
                         (drop (nat \<lceil>0.2 * real n\<rceil>) (rng_permutation lib k n))),
          map ((!) y) (take (nat \<lceil>0.2 * real n\<rceil>) (rng_permutation lib k n)))"
proof -
  let ?t = "nat \<lceil>0.2 * real n\<rceil>"
  let ?p = "rng_permutation lib k n"
  have t: "?t < n" using n by (rule n_test_less)
  have p: "set ?p = {0..<n}" using ok by (simp add: lib_ok_def)
  have "set (take ?t ?p) \<subseteq> {0..<n}"
    using p set_take_subset by fastforce
  then have 1: "map ((!) (map (\<lambda>v. [v]) y)) (take ?t ?p) = map (\<lambda>v. [v]) (map ((!) y) (take ?t ?p))"
    using len by (auto simp: subset_iff)
  have "set (take (n - ?t) (drop ?t ?p)) \<subseteq> {0..<n}"
    using p set_take_subset set_drop_subset by fastforce
  then have 2: "map ((!) (map (\<lambda>v. [v]) y)) (take (n - ?t) (drop ?t ?p)) =
      map (\<lambda>v. [v]) (map ((!) y) (take (n - ?t) (drop ?t ?p)))"
    using len by (auto simp: subset_iff)
  show ?thesis
    using t len 1 2 by (simp add: train_test_split_def Let_def)
qed

lemma data_simulation_ok:
  assumes ok: "lib_ok lib" and n: "2 \<le> n" and seed: "0 \<le> seed" "seed < 2 ^ 32"
  shows "\<exists>x_train x_test y_train y_test.
     fst (data_simulation lib seed n g) = Inr (x_train, x_test, y_train, y_test) \<and>
     length y_test = nat \<lceil>0.2 * real (nat n)\<rceil> \<and>
     length y_train = nat n - nat \<lceil>0.2 * real (nat n)\<rceil> \<and>
     x_train = map (\<lambda>v. [v]) y_train \<and> x_test = map (\<lambda>v. [v]) y_test"
proof -
  obtain y g' where u: "rng_uniform lib (nat n) (rng_seed lib (nat seed)) = (y, g')"
    by (cases "rng_uniform lib (nat n) (rng_seed lib (nat seed))")
  then have len: "length y = nat n"
    using ok by (metis fst_conv lib_ok_def)
  have n2: "2 \<le> nat n" using n by simp
  have x: "scale_rows (nat n) y (replicate (nat n) [1]) = map (\<lambda>v. [v]) y"
    by (rule scale_rows_all [OF len])
  have lp: "length (rng_permutation lib (nat seed) (nat n)) = nat n"
    using ok by (metis lib_ok_def distinct_card card_atLeastLessThan diff_zero)
  have t: "nat \<lceil>0.2 * real (nat n)\<rceil> < nat n"
    using n2 by (rule n_test_less)
  have "fst (data_simulation lib seed n g) =
      train_test_split lib (map (\<lambda>v. [v]) y) y (nat seed)"
    using n seed u x by (simp add: data_simulation_def np_ones_def np_random_seed_def)
  then show ?thesis
    using train_test_split_ok [OF ok len n2, of "nat seed"] lp t by simp
qed

subsection \<open>Which sample counts are refused\<close>

text \<open>
  C7, as stated, has the cell succeed for every positive sample count. With one sample
  \<open>train_test_split\<close> puts \<open>ceil(0.2 * 1) = 1\<close> sample into the test set, none is left
  for training, and the split is refused. This does not depend on the generators: the
  general statement is part of the theorem that follows.
\<close>

theorem sample_count_counterexample:
  "(0::int) < 1 \<and> fst (data_simulation example_lib 23 1 0) = Inl ValueError"
  by (simp add: data_simulation_small)

text \<open>
  C7, amended. With a seed numpy accepts (23 in the notebook), the data simulation fails
  with a ValueError for every sample count \<open>N \<le> 1\<close>: numpy refuses a negative dimension
  and scikit-learn refuses a split whose training set would be empty. For every
  \<open>N \<ge> 2\<close> it returns the training and evaluation subsets without error, of
  \<open>N - ceil(0.2 * N)\<close> and \<open>ceil(0.2 * N)\<close> samples, each input row holding its target.
\<close>

theorem sample_count_errors:
  assumes "lib_ok lib" and "0 \<le> seed" and "seed < 2 ^ 32"
  shows "(n \<le> 1 \<longrightarrow> fst (data_simulation lib seed n g) = Inl ValueError) \<and>
     (2 \<le> n \<longrightarrow>
       (\<exists>x_train x_test y_train y_test.
          fst (data_simulation lib seed n g) = Inr (x_train, x_test, y_train, y_test) \<and>
          length y_test = nat \<lceil>0.2 * real (nat n)\<rceil> \<and>
          length y_train = nat n - nat \<lceil>0.2 * real (nat n)\<rceil> \<and>
          x_train = map (\<lambda>v. [v]) y_train \<and> x_test = map (\<lambda>v. [v]) y_test))"
proof (intro conjI impI)
  assume "n \<le> 1"
  then show "fst (data_simulation lib seed n g) = Inl ValueError"
    using assms(2,3) by (rule data_simulation_small)
next
  assume "2 \<le> n"
  with assms(1) show "\<exists>x_train x_test y_train y_test.
          fst (data_simulation lib seed n g) = Inr (x_train, x_test, y_train, y_test) \<and>
          length y_test = nat \<lceil>0.2 * real (nat n)\<rceil> \<and>
          length y_train = nat n - nat \<lceil>0.2 * real (nat n)\<rceil> \<and>
          x_train = map (\<lambda>v. [v]) y_train \<and> x_test = map (\<lambda>v. [v]) y_test"
    using assms(2,3) by (rule data_simulation_ok)
qed

theorem sample_count_errors_witness:
  "fst (data_simulation example_lib 23 0 0) = Inl ValueError \<and>
   fst (data_simulation example_lib 23 (-3) 0) = Inl ValueError \<and>
   (\<exists>x_train x_test y_train y_test.
      fst (data_simulation example_lib 23 10 0) = Inr (x_train, x_test, y_train, y_test) \<and>
      length y_test = 2 \<and> length y_train = 8)"
proof -
  have s: "(0::int) \<le> 23" "(23::int) < 2 ^ 32" by simp_all
  note t = sample_count_errors [OF lib_ok_example s]
  have a: "fst (data_simulation example_lib 23 0 0) = Inl ValueError"
    using t [of 0 0] by simp
  have b: "fst (data_simulation example_lib 23 (-3) 0) = Inl ValueError"
    using t [of "-3" 0] by simp
  have c: "\<exists>x_train x_test y_train y_test.
      fst (data_simulation example_lib 23 10 0) = Inr (x_train, x_test, y_train, y_test) \<and>
      length y_test = 2 \<and> length y_train = 8"
  proof -
    have "(2::int) \<le> 10" by simp
    with t [of 10 0] obtain x_train x_test y_train y_test where
      r: "fst (data_simulation example_lib 23 10 0) = Inr (x_train, x_test, y_train, y_test)"
      and l: "length y_test = nat \<lceil>0.2 * real (nat 10)\<rceil>"
        "length y_train = nat 10 - nat \<lceil>0.2 * real (nat 10)\<rceil>"
      by blast
    from l have "length y_test = 2" "length y_train = 8" by simp_all
    with r show ?thesis by blast
  qed
  from a b c show ?thesis by blast
qed

subsection \<open>Repeated runs\<close>

lemma compute_activations_obj_again:
  assumes p: "\<forall>r \<in> set weights. present s r"
    and r: "compute_activations_obj x weights activations s = Inr ((h, f), s')"
  shows "\<exists>h' f' s''. compute_activations_obj x weights activations s' = Inr ((h', f'), s'') \<and>
     s'' ! h' = s' ! h \<and> s'' ! f' = s' ! f"
proof -
  from compute_activations_obj_frame [OF p r]
  have fr: "take (length s) s' = s" "length s' = length s + 4" by simp_all
  have same: "s' ! a = s ! a" if "a \<in> set weights" for a
  proof -
    have "a < length s" using p that by (simp add: present_def)
    then show ?thesis using fr(1) by (metis nth_take)
  qed
  then have m: "map ((!) s') weights = map ((!) s) weights"
    by simp
  have p': "\<forall>r \<in> set weights. present s' r"
    using p fr(2) by (auto simp: present_def)
  have "compute_activations x (map ((!) s) weights) activations = Inr (s' ! h, s' ! f)"
    using compute_activations_obj_value [OF p, of x activations] r by simp
  then have "map_sum id (\<lambda>((h, f), s''). (s'' ! h, s'' ! f))
      (compute_activations_obj x weights activations s') = Inr (s' ! h, s' ! f)"
    using compute_activations_obj_value [OF p', of x activations] m by simp
  then show ?thesis
    by (cases "compute_activations_obj x weights activations s'") auto
qed

text \<open>
  C8. For every seed and sample count, a second run of the data simulation, started in
  the generator state the first run left behind (or in any other state), produces the
  same result as the first: the same samples and the same train/evaluation partition, or
  the same error. A second call of \<open>compute_activations\<close> on the same arguments, in the
  store the first call left behind, returns hidden and final arrays with the same values.
\<close>

theorem repeat_runs_identical:
  "fst (data_simulation lib seed n (snd (data_simulation lib seed n g))) =
     fst (data_simulation lib seed n g) \<and>
   fst (data_simulation lib seed n g') = fst (data_simulation lib seed n g) \<and>
   ((\<forall>r \<in> set weights. present s r) \<and>
    compute_activations_obj x weights activations s = Inr ((h, f), s') \<longrightarrow>
      (\<exists>h' f' s''.
         compute_activations_obj x weights activations s' = Inr ((h', f'), s'') \<and>
         s'' ! h' = s' ! h \<and> s'' ! f' = s' ! f))"
  using data_simulation_result_independent [of lib seed n] compute_activations_obj_again
  by blast

theorem repeat_runs_identical_witness:
  "fst (data_simulation example_lib 23 5 28) = fst (data_simulation example_lib 23 5 0) \<and>
   fst (data_simulation example_lib 23 5 0) =
     Inr ([[1 / 28], [1 / 27], [1 / 26], [1 / 25]], [[1 / 29]],
          [1 / 28, 1 / 27, 1 / 26, 1 / 25], [1 / 29]) \<and>
   (\<exists>h' f' s''.
      compute_activations_obj (1/2) [0, 1, 2, 3] ''relu''
        (weight_bundle (-1, 2) (0, 0) (1, 1) 0 @
           [Arr2 [[- (1 / 2), 1]], Arr2 [[0, 1]], Arr2 [[1]], Arr2 [[1]]]) =
        Inr ((h', f'), s'') \<and>
      s'' ! h' = Arr2 [[0, 1]] \<and> s'' ! f' = Arr2 [[1]])"
proof -
  let ?s = "weight_bundle (-1, 2) (0, 0) (1, 1) 0"
  let ?s' = "?s @ [Arr2 [[- (1 / 2), 1]], Arr2 [[0, 1]], Arr2 [[1]], Arr2 [[1]]]"
  note t = repeat_runs_identical [of example_lib 23 5 0 28 "[0, 1, 2, 3]" ?s "1/2" "''relu''"
      5 7 ?s']
  have p: "\<forall>r \<in> set [0, 1, 2, 3]. present ?s r"
    by (simp add: present_def weight_bundle_def)
  have r: "compute_activations_obj (1/2) [0, 1, 2, 3] ''relu'' ?s = Inr ((5, 7), ?s')"
    by code_simp
  have v: "fst (data_simulation example_lib 23 5 0) =
     Inr ([[1 / 28], [1 / 27], [1 / 26], [1 / 25]], [[1 / 29]],
          [1 / 28, 1 / 27, 1 / 26, 1 / 25], [1 / 29])"
    by code_simp
  have i5: "?s' ! 5 = Arr2 [[0, 1]]" and i7: "?s' ! 7 = Arr2 [[1]]"
    by (simp_all add: weight_bundle_def)
  from t p r have "\<exists>h' f' s''.
      compute_activations_obj (1/2) [0, 1, 2, 3] ''relu'' ?s' = Inr ((h', f'), s'') \<and>
      s'' ! h' = ?s' ! 5 \<and> s'' ! f' = ?s' ! 7"
    by blast
  then have 3: "\<exists>h' f' s''.
      compute_activations_obj (1/2) [0, 1, 2, 3] ''relu'' ?s' = Inr ((h', f'), s'') \<and>
      s'' ! h' = Arr2 [[0, 1]] \<and> s'' ! f' = Arr2 [[1]]"
    by (simp only: i5 i7)
  from t have 1: "fst (data_simulation example_lib 23 5 28) =
      fst (data_simulation example_lib 23 5 0)"
    by blast
  from 1 v 3 show ?thesis by blast
qed

subsection \<open>Effects\<close>

text \<open>
  C9, as stated, counts the helper \<open>relu\<close> among the pure functions. It overwrites the
  array it is given: called on an array holding \<open>[-1, 2]\<close>, it leaves \<open>[0, 2]\<close> in that
  same array.
\<close>

theorem relu_mutates_counterexample:
  "relu_obj 0 [Arr1 [-1, 2]] = Inr (0, [Arr1 [0, 2]]) \<and> [Arr1 [0, 2]] \<noteq> [Arr1 [-1, 2]]"
  by (simp add: relu_obj_def and_then_def clamp_def)

text \<open>
  C9, amended. \<open>compute_activations\<close> does not mutate its arguments: on a store holding the
  weights, the values it returns depend only on \<open>x\<close>, the values of the weights and the
  policy; every array that existed before the call (the weight bundle included) is
  unchanged, and the hidden and final arrays returned are new objects. Its helper \<open>relu\<close>
  works in place: it returns the reference it was given, and the array behind it is
  overwritten with the clamped values (\<open>compute_activations\<close> passes it only arrays it has
  just created). The result of the data simulation depends only on the seed and the sample
  count, not on the state of numpy's global generator before the run; the run does update
  that global state, to the state reached by seeding and drawing the samples.
\<close>

theorem effects_of_components:
  "((\<forall>r \<in> set weights. present s r) \<longrightarrow>
      map_sum id (\<lambda>((h, f), s'). (s' ! h, s' ! f))
        (compute_activations_obj x weights activations s) =
      compute_activations x (map ((!) s) weights) activations \<and>
      (\<forall>h f s'. compute_activations_obj x weights activations s = Inr ((h, f), s') \<longrightarrow>
         take (length s) s' = s \<and> \<not> present s h \<and> \<not> present s f \<and>
         present s' h \<and> present s' f)) \<and>
   (\<forall>r s'. present st a \<and> relu_obj a st = Inr (r, s') \<longrightarrow>
      r = a \<and> relu (st ! a) = Inr (s' ! a) \<and> s' = st[a := s' ! a]) \<and>
   fst (data_simulation lib seed n g') = fst (data_simulation lib seed n g) \<and>
   (0 \<le> n \<and> 0 \<le> seed \<and> seed < 2 ^ 32 \<longrightarrow>
      snd (data_simulation lib seed n g) =
      snd (rng_uniform lib (nat n) (rng_seed lib (nat seed))))"
proof (intro conjI impI allI)
  assume p: "\<forall>r \<in> set weights. present s r"
  show "map_sum id (\<lambda>((h, f), s'). (s' ! h, s' ! f))
        (compute_activations_obj x weights activations s) =
      compute_activations x (map ((!) s) weights) activations"
    by (rule compute_activations_obj_value [OF p])
  fix h f s'
  assume "compute_activations_obj x weights activations s = Inr ((h, f), s')"
  from compute_activations_obj_frame [OF p this]
  show "take (length s) s' = s" "\<not> present s h" "\<not> present s f" "present s' h" "present s' f"
    by (simp_all add: present_def)
next
  fix r s'
  assume "present st a \<and> relu_obj a st = Inr (r, s')"
  then show "r = a" "relu (st ! a) = Inr (s' ! a)" "s' = st[a := s' ! a]"
    by (auto simp: relu_obj_in_place present_def)
next
  show "fst (data_simulation lib seed n g') = fst (data_simulation lib seed n g)"
    by (rule data_simulation_result_independent)
next
  assume "0 \<le> n \<and> 0 \<le> seed \<and> seed < 2 ^ 32"
  then show "snd (data_simulation lib seed n g) =
      snd (rng_uniform lib (nat n) (rng_seed lib (nat seed)))"
    by (simp add: data_simulation_state)
qed

theorem effects_of_components_witness:
  "compute_activations_obj (1/2) [0, 1, 2, 3] ''relu'' (weight_bundle (-1, 2) (0, 0) (1, 1) 0) =
     Inr ((5, 7), weight_bundle (-1, 2) (0, 0) (1, 1) 0 @
        [Arr2 [[- (1 / 2), 1]], Arr2 [[0, 1]], Arr2 [[1]], Arr2 [[1]]]) \<and>
   compute_activations (1/2) (weight_bundle (-1, 2) (0, 0) (1, 1) 0) ''relu'' =
     Inr (Arr2 [[0, 1]], Arr2 [[1]]) \<and>
   relu_obj 0 [Arr1 [-1, 2]] = Inr (0, [Arr1 [0, 2]]) \<and>
   snd (data_simulation example_lib 23 5 0) = 28"
proof -
  let ?s = "weight_bundle (-1, 2) (0, 0) (1, 1) 0"
  let ?s' = "?s @ [Arr2 [[- (1 / 2), 1]], Arr2 [[0, 1]], Arr2 [[1]], Arr2 [[1]]]"
  note t = effects_of_components [where weights = "[0, 1, 2, 3]" and s = ?s and x = "1/2"
      and activations = "''relu''" and st = "[Arr1 [-1, 2]]" and a = 0
      and lib = example_lib and seed = 23 and n = 5 and g = 0 and g' = 0]
  have p: "\<forall>r \<in> set [0, 1, 2, 3]. present ?s r"
    by (simp add: present_def weight_bundle_def)
  have r: "compute_activations_obj (1/2) [0, 1, 2, 3] ''relu'' ?s = Inr ((5, 7), ?s')"
    by code_simp
  have m: "map ((!) ?s) [0, 1, 2, 3] = ?s"
    by (simp add: weight_bundle_def)
  have i: "?s' ! 5 = Arr2 [[0, 1]]" "?s' ! 7 = Arr2 [[1]]"
    by (simp_all add: weight_bundle_def)
  from t p have "map_sum id (\<lambda>((h, f), s'). (s' ! h, s' ! f))
        (compute_activations_obj (1/2) [0, 1, 2, 3] ''relu'' ?s) =
      compute_activations (1/2) (map ((!) ?s) [0, 1, 2, 3]) ''relu''"
    by blast
  then have v: "compute_activations (1/2) ?s ''relu'' = Inr (Arr2 [[0, 1]], Arr2 [[1]])"
    unfolding r m by (simp add: i)
  have u0: "relu_obj 0 [Arr1 [-1, 2]] = Inr (0, [Arr1 [0, 2]])"
    by (simp add: relu_obj_def and_then_def clamp_def)
  have "present [Arr1 [-1, 2]] 0"
    by (simp add: present_def)
  with t u0 have "relu ([Arr1 [-1, 2]] ! 0) = Inr ([Arr1 [0, 2]] ! 0)"
    by blast
  with u0 have u: "relu_obj 0 [Arr1 [-1, 2]] = Inr (0, [Arr1 [0, 2]])"
    by simp
  have "(0::int) \<le> 5 \<and> (0::int) \<le> 23 \<and> (23::int) < 2 ^ 32"
    by simp
  with t have "snd (data_simulation example_lib 23 5 0) =
      snd (rng_uniform example_lib (nat 5) (rng_seed example_lib (nat 23)))"
    by blast
  then have g: "snd (data_simulation example_lib 23 5 0) = 28"
    by (simp add: example_lib_def)
  from r v u g show ?thesis by blast
qed

end
